theory Spec2Isabelle
  imports Complex_Main "HOL-Library.Multiset"
begin

section \<open>Personal-finance service: token lifecycle and analytics engine\<close>

text \<open>
  A shallow embedding of \<^verbatim>\<open>app/auth.py\<close> and \<^verbatim>\<open>app/routers/analytics.py\<close>.
  Amounts are Python numbers; they are modelled as exact rationals, so a sum and a
  quotient are the mathematical ones. An exception is a value: a function that can raise
  returns a sum type whose left injection carries what was raised.
\<close>

subsection \<open>Common values\<close>

text \<open>\<^verbatim>\<open>fastapi.HTTPException(status_code, detail)\<close>.\<close>

datatype http_exception = HTTPException (status_code: nat) (detail: string)

text \<open>
  What a \<^verbatim>\<open>try\<close> body can raise: an \<^verbatim>\<open>HTTPException\<close> or any other exception
  (named by its class). Both are instances of \<^verbatim>\<open>Exception\<close>.
\<close>

datatype exn = HTTP http_exception | Other string

text \<open>
  \<^verbatim>\<open>round(x, 2)\<close>: the nearest multiple of 0.01, a tie going to the even neighbour.
\<close>

definition round_half_even :: "rat \<Rightarrow> int" where
  "round_half_even x =
     (let f = \<lfloor>x\<rfloor>; r = x - of_int f
      in if r < 1 / 2 then f else if 1 / 2 < r then f + 1 else if even f then f else f + 1)"

definition round2 :: "rat \<Rightarrow> rat" where
  "round2 x = of_int (round_half_even (x * 100)) / 100"

subsection \<open>Budget Progress Evaluator (\<^verbatim>\<open>get_budget_progress\<close>)\<close>

text \<open>
  The body of the loop over the active budgets, from the point where the query has
  produced \<^verbatim>\<open>spent_amount\<close> (\<^verbatim>\<open>spent_query.scalar() or 0\<close>).
\<close>

definition progress_percentage :: "rat \<Rightarrow> rat \<Rightarrow> rat" where
  "progress_percentage spent_amount budget_amount =
     (if budget_amount > 0 then spent_amount / budget_amount * 100 else 0)"

definition budget_status :: "rat \<Rightarrow> string" where
  "budget_status p =
     (if p \<ge> 100 then ''exceeded'' else if p \<ge> 80 then ''warning'' else ''good'')"




subsection \<open>Generic Transform Engine: the records\<close>

text \<open>
  A transaction-like record is a dictionary that may carry \<^verbatim>\<open>amount\<close>, \<^verbatim>\<open>type\<close>,
  \<^verbatim>\<open>category\<close> and \<^verbatim>\<open>date\<close>; \<open>None\<close> is the absent key. The request body may
  carry \<^verbatim>\<open>transactions\<close> and \<^verbatim>\<open>period\<close>.
\<close>

record txn =
  t_amount :: "rat option"
  t_type :: "string option"
  t_category :: "string option"
  t_date :: "string option"

record transform_data =
  d_transactions :: "txn list option"
  d_period :: "string option"

text \<open>\<^verbatim>\<open>t.get("amount", 0)\<close>\<close>

definition get_amount :: "txn \<Rightarrow> rat" where
  "get_amount t = (case t_amount t of None \<Rightarrow> 0 | Some a \<Rightarrow> a)"

subsection \<open>\<^verbatim>\<open>transform_summarize\<close>\<close>


definition total_of_type :: "string \<Rightarrow> txn list \<Rightarrow> rat" where
  "total_of_type ty transactions =
     sum_list (map get_amount (filter (\<lambda>t. t_type t = Some ty) transactions))"


subsection \<open>Calendar (\<^verbatim>\<open>datetime\<close>)\<close>

text \<open>
  A \<^verbatim>\<open>datetime\<close> value with its seven fields. The calendar is the proleptic
  Gregorian one of the \<^verbatim>\<open>datetime\<close> module: \<open>toordinal\<close> counts days from
  0001-01-01 (day 1, a Monday), \<open>weekday\<close> is 0 on Monday.
\<close>

record datetime =
  dt_year :: int
  dt_month :: int
  dt_day :: int
  dt_hour :: int
  dt_minute :: int
  dt_second :: int
  dt_microsecond :: int

definition is_leap :: "int \<Rightarrow> bool" where
  "is_leap y = (y mod 4 = 0 \<and> (if y mod 100 = 0 then y mod 400 = 0 else True))"

definition days_in_month :: "int \<Rightarrow> int \<Rightarrow> int" where
  "days_in_month y m =
     (if m = 2 \<and> is_leap y then 29
      else [31, 28, 31, 30, 31, 30, 31, 31, 30, 31, 30, 31] ! nat (m - 1))"

definition days_before_month :: "int \<Rightarrow> int \<Rightarrow> int" where
  "days_before_month y m =
     [0, 31, 59, 90, 120, 151, 181, 212, 243, 273, 304, 334] ! nat (m - 1)
       + (if m > 2 \<and> is_leap y then 1 else 0)"

definition days_before_year :: "int \<Rightarrow> int" where
  "days_before_year year =
     (let y = year - 1 in y * 365 + y div 4 - y div 100 + y div 400)"

definition ymd2ord :: "int \<Rightarrow> int \<Rightarrow> int \<Rightarrow> int" where
  "ymd2ord y m d = days_before_year y + days_before_month y m + d"

definition toordinal :: "datetime \<Rightarrow> int" where
  "toordinal d = ymd2ord (dt_year d) (dt_month d) (dt_day d)"

definition weekday :: "datetime \<Rightarrow> int" where
  "weekday d = (toordinal d + 6) mod 7"

text \<open>The dates a \<^verbatim>\<open>datetime\<close> can hold (\<^verbatim>\<open>MINYEAR\<close> = 1, \<^verbatim>\<open>MAXYEAR\<close> = 9999).\<close>

definition valid_date :: "datetime \<Rightarrow> bool" where
  "valid_date d =
     (1 \<le> dt_year d \<and> dt_year d \<le> 9999 \<and> 1 \<le> dt_month d \<and> dt_month d \<le> 12
      \<and> 1 \<le> dt_day d \<and> dt_day d \<le> days_in_month (dt_year d) (dt_month d))"

text \<open>
  \<^verbatim>\<open>d - timedelta(days=k)\<close>: the date k days earlier, the time of day unchanged.
  Stepping before 0001-01-01 is \<^verbatim>\<open>OverflowError\<close>, the value \<open>None\<close>.
\<close>

definition prev_day :: "datetime \<Rightarrow> datetime option" where
  "prev_day d =
     (if dt_day d > 1 then Some (d\<lparr>dt_day := dt_day d - 1\<rparr>)
      else if dt_month d > 1
        then Some (d\<lparr>dt_month := dt_month d - 1,
                      dt_day := days_in_month (dt_year d) (dt_month d - 1)\<rparr>)
      else if dt_year d > 1
        then Some (d\<lparr>dt_year := dt_year d - 1, dt_month := 12, dt_day := 31\<rparr>)
      else None)"

primrec sub_days :: "datetime \<Rightarrow> nat \<Rightarrow> datetime option" where
  "sub_days d 0 = Some d"
| "sub_days d (Suc k) = (case prev_day d of None \<Rightarrow> None | Some d' \<Rightarrow> sub_days d' k)"

text \<open>\<^verbatim>\<open>.replace(hour=0, minute=0, second=0, microsecond=0)\<close>\<close>

definition midnight :: "datetime \<Rightarrow> datetime" where
  "midnight d = d\<lparr>dt_hour := 0, dt_minute := 0, dt_second := 0, dt_microsecond := 0\<rparr>"

subsection \<open>Period Window Calculator\<close>

text \<open>
  The start of the window, as \<^verbatim>\<open>get_category_breakdown\<close> and
  \<^verbatim>\<open>get_transaction_summary\<close> both compute it (the same lines in both), with the
  clock reading \<^verbatim>\<open>now\<close> as an argument. The last branch takes every tag
  that is not day, week or month.
\<close>

definition period_start :: "string \<Rightarrow> datetime \<Rightarrow> datetime option" where
  "period_start period now =
     (if period = ''day'' then Some (midnight now)
      else if period = ''week'' then
        (case sub_days now (nat (weekday now)) of
           None \<Rightarrow> None
         | Some start_date \<Rightarrow> Some (midnight start_date))
      else if period = ''month'' then Some (midnight (now\<lparr>dt_day := 1\<rparr>))
      else Some (midnight (now\<lparr>dt_month := 1, dt_day := 1\<rparr>)))"

subsection \<open>Category Aggregator (\<^verbatim>\<open>get_category_breakdown\<close>)\<close>

text \<open>
  A row of the grouped query: the category (\<open>None\<close> is SQL NULL), the sum of the
  amounts of the group and the number of its entries.
\<close>

record group_row =
  g_category :: "string option"
  g_total_amount :: rat
  g_transaction_count :: nat

record breakdown_entry =
  c_category :: string
  c_total_amount :: rat
  c_transaction_count :: nat
  c_percentage :: rat
  c_color :: string

definition get_category_color :: "string \<Rightarrow> string" where
  "get_category_color category =
     (case map_of
        [(''Food'', ''#FF6B6B''), (''Transportation'', ''#4ECDC4''),
         (''Entertainment'', ''#45B7D1''), (''Shopping'', ''#96CEB4''),
         (''Bills'', ''#FFEAA7''), (''Healthcare'', ''#DDA0DD''),
         (''Education'', ''#98D8C8''), (''Travel'', ''#F7DC6F''),
         (''Uncategorized'', ''#BDC3C7'')] category of
        None \<Rightarrow> ''#BDC3C7''
      | Some c \<Rightarrow> c)"

definition total_expenses :: "group_row list \<Rightarrow> rat" where
  "total_expenses transactions = sum_list (map g_total_amount transactions)"

text \<open>\<^verbatim>\<open>transaction.category or "Uncategorized"\<close>: NULL and the empty string are falsy.\<close>

definition category_or_default :: "string option \<Rightarrow> string" where
  "category_or_default c =
     (case c of None \<Rightarrow> ''Uncategorized'' | Some n \<Rightarrow> if n = [] then ''Uncategorized'' else n)"

definition percentage_of :: "rat \<Rightarrow> rat \<Rightarrow> rat" where
  "percentage_of grand_total transaction_total =
     (if grand_total > 0 then transaction_total / grand_total * 100 else 0)"

definition breakdown_row :: "rat \<Rightarrow> group_row \<Rightarrow> breakdown_entry" where
  "breakdown_row grand_total transaction =
     (let category = category_or_default (g_category transaction);
          percentage = percentage_of grand_total (g_total_amount transaction)
      in \<lparr> c_category = category,
           c_total_amount = g_total_amount transaction,
           c_transaction_count = g_transaction_count transaction,
           c_percentage = round2 percentage,
           c_color = get_category_color category \<rparr>)"

text \<open>
  \<^verbatim>\<open>list.sort(key=..., reverse=True)\<close>: the list is reversed, sorted stably in
  ascending order of the key and reversed again.
\<close>

definition sort_reverse :: "('a \<Rightarrow> rat) \<Rightarrow> 'a list \<Rightarrow> 'a list" where
  "sort_reverse key xs = rev (sort_key key (rev xs))"

definition breakdown :: "group_row list \<Rightarrow> breakdown_entry list" where
  "breakdown transactions =
     sort_reverse c_total_amount (map (breakdown_row (total_expenses transactions)) transactions)"

record breakdown_result =
  r_period :: string
  r_start_date :: datetime
  r_total_expenses :: rat
  r_category_count :: nat
  r_breakdown :: "breakdown_entry list"

text \<open>
  The handler, given the clock reading and the rows of the query. Whatever the body
  raises is turned into status 500 by the handler's \<^verbatim>\<open>except Exception\<close>.
\<close>

definition get_category_breakdown ::
    "string \<Rightarrow> datetime \<Rightarrow> group_row list \<Rightarrow> http_exception + breakdown_result" where
  "get_category_breakdown period now transactions =
     (case period_start period now of
        None \<Rightarrow> Inl (HTTPException 500 ''Internal server error'')
      | Some start_date \<Rightarrow>
          Inr \<lparr> r_period = period, r_start_date = start_date,
                r_total_expenses = total_expenses transactions,
                r_category_count = length (breakdown transactions),
                r_breakdown = breakdown transactions \<rparr>)"

text \<open>Four rows of a grouped query, two of them with the same total.\<close>

definition example_rows :: "group_row list" where
  "example_rows =
     [\<lparr>g_category = Some ''Food'', g_total_amount = 30, g_transaction_count = 2\<rparr>,
      \<lparr>g_category = None, g_total_amount = 50, g_transaction_count = 1\<rparr>,
      \<lparr>g_category = Some ''Bills'', g_total_amount = 30, g_transaction_count = 3\<rparr>,
      \<lparr>g_category = Some ''Travel'', g_total_amount = 10, g_transaction_count = 1\<rparr>]"

subsection \<open>\<^verbatim>\<open>transform_aggregate\<close>\<close>

text \<open>\<^verbatim>\<open>date_str.replace("Z", "+00:00")\<close>\<close>

definition replace_Z :: "string \<Rightarrow> string" where
  "replace_Z s = concat (map (\<lambda>c. if c = CHR ''Z'' then ''+00:00'' else [c]) s)"

text \<open>
  \<^verbatim>\<open>str(n)\<close> for an integer, and the zero-padded fields of \<^verbatim>\<open>strftime\<close>
  (\<^verbatim>\<open>%Y\<close> is taken as four digits, \<^verbatim>\<open>%m\<close> and \<^verbatim>\<open>%d\<close> as two).
\<close>

fun str_nat :: "nat \<Rightarrow> string" where
  "str_nat n =
     (if n < 10 then [''0123456789'' ! n]
      else str_nat (n div 10) @ [''0123456789'' ! (n mod 10)])"

declare str_nat.simps [simp del]

definition str_int :: "int \<Rightarrow> string" where
  "str_int i = (if i < 0 then CHR ''-'' # str_nat (nat (- i)) else str_nat (nat i))"

definition zfill :: "nat \<Rightarrow> string \<Rightarrow> string" where
  "zfill w s = replicate (w - length s) CHR ''0'' @ s"

definition strftime_Ymd :: "datetime \<Rightarrow> string" where
  "strftime_Ymd d =
     zfill 4 (str_int (dt_year d)) @ ''-'' @ zfill 2 (str_int (dt_month d)) @ ''-''
       @ zfill 2 (str_int (dt_day d))"

definition strftime_Ym :: "datetime \<Rightarrow> string" where
  "strftime_Ym d = zfill 4 (str_int (dt_year d)) @ ''-'' @ zfill 2 (str_int (dt_month d))"

text \<open>\<^verbatim>\<open>date.isocalendar()\<close>: ISO year, ISO week number and ISO weekday.\<close>

definition isoweek1monday :: "int \<Rightarrow> int" where
  "isoweek1monday year =
     (let firstday = ymd2ord year 1 1;
          firstweekday = (firstday + 6) mod 7;
          week1monday = firstday - firstweekday
      in if firstweekday > 3 then week1monday + 7 else week1monday)"

definition isocalendar :: "datetime \<Rightarrow> int \<times> int \<times> int" where
  "isocalendar d =
     (let year = dt_year d;
          week1monday = isoweek1monday year;
          today = toordinal d;
          week = (today - week1monday) div 7;
          day = (today - week1monday) mod 7
      in if week < 0 then
           (let week1monday' = isoweek1monday (year - 1)
            in (year - 1, (today - week1monday') div 7 + 1, (today - week1monday') mod 7 + 1))
         else if week \<ge> 52 \<and> today \<ge> isoweek1monday (year + 1) then (year + 1, 1, day + 1)
         else (year, week + 1, day + 1))"

text \<open>The key of the bucket of a parsed date, as the loop body computes it.\<close>

definition period_key :: "string \<Rightarrow> datetime \<Rightarrow> string" where
  "period_key period d =
     (if period = ''day'' then strftime_Ymd d
      else if period = ''week'' then
        str_int (dt_year d) @ ''-W'' @ str_int (fst (snd (isocalendar d)))
      else if period = ''month'' then strftime_Ym d
      else str_int (dt_year d))"

text \<open>
  The dictionary \<^verbatim>\<open>aggregated\<close> keeps its keys in the order of insertion: a list
  of pairs, in which an assignment replaces the value of a key that is present and
  appends a key that is not.
\<close>

primrec dict_set :: "string \<Rightarrow> 'v \<Rightarrow> (string \<times> 'v) list \<Rightarrow> (string \<times> 'v) list" where
  "dict_set k v [] = [(k, v)]"
| "dict_set k v (p # ps) = (if fst p = k then (k, v) # ps else p # dict_set k v ps)"

record bucket =
  a_income :: rat
  a_expenses :: rat
  a_count :: nat

definition bucket_of :: "(string \<times> bucket) list \<Rightarrow> string \<Rightarrow> bucket" where
  "bucket_of aggregated key =
     (case map_of aggregated key of
        None \<Rightarrow> \<lparr>a_income = 0, a_expenses = 0, a_count = 0\<rparr>
      | Some b \<Rightarrow> b)"

text \<open>
  One turn of the loop. \<^verbatim>\<open>datetime.fromisoformat\<close> is an argument: it returns
  \<open>None\<close> where the library raises \<^verbatim>\<open>ValueError\<close>, which the loop catches to
  go on with the next record.
\<close>

definition aggregate_step ::
    "(string \<Rightarrow> datetime option) \<Rightarrow> string \<Rightarrow> (string \<times> bucket) list \<Rightarrow> txn
       \<Rightarrow> (string \<times> bucket) list" where
  "aggregate_step fromisoformat period aggregated transaction =
     (let date_str = (case t_date transaction of None \<Rightarrow> [] | Some s \<Rightarrow> s)
      in if date_str = [] then aggregated
         else
           (case fromisoformat (replace_Z date_str) of
              None \<Rightarrow> aggregated
            | Some date \<Rightarrow>
                (let key = period_key period date;
                     b = bucket_of aggregated key;
                     amount = get_amount transaction;
                     transaction_type =
                       (case t_type transaction of None \<Rightarrow> ''expense'' | Some ty \<Rightarrow> ty);
                     b' = (if transaction_type = ''income''
                           then b\<lparr>a_income := a_income b + amount\<rparr>
                           else b\<lparr>a_expenses := a_expenses b + amount\<rparr>)
                 in dict_set key (b'\<lparr>a_count := a_count b' + 1\<rparr>) aggregated)))"

definition aggregated_of ::
    "(string \<Rightarrow> datetime option) \<Rightarrow> string \<Rightarrow> txn list \<Rightarrow> (string \<times> bucket) list" where
  "aggregated_of fromisoformat period transactions =
     fold (\<lambda>transaction aggregated. aggregate_step fromisoformat period aggregated transaction)
       transactions []"

definition transform_aggregate ::
    "(string \<Rightarrow> datetime option) \<Rightarrow> transform_data
       \<Rightarrow> string + (string \<times> bucket) list \<times> string" where
  "transform_aggregate fromisoformat data =
     (case d_transactions data of
        None \<Rightarrow> Inl ''No transactions data provided''
      | Some transactions \<Rightarrow>
          (let period = (case d_period data of None \<Rightarrow> ''month'' | Some p \<Rightarrow> p)
           in Inr (aggregated_of fromisoformat period transactions, period)))"

text \<open>
  The date-only form \<^verbatim>\<open>YYYY-MM-DD\<close> of \<^verbatim>\<open>datetime.fromisoformat\<close>: ten
  characters, digits around two hyphens, naming a date of the calendar, at midnight.
  It stands for the argument above where a computation is run on such strings.
\<close>

definition digits_value :: "string \<Rightarrow> int" where
  "digits_value s = foldl (\<lambda>a c. a * 10 + (int (of_char c) - 48)) 0 s"

definition fromisoformat_date :: "string \<Rightarrow> datetime option" where
  "fromisoformat_date s =
     (if length s = 10 \<and> s ! 4 = CHR ''-'' \<and> s ! 7 = CHR ''-''
         \<and> list_all (\<lambda>c. c \<in> set ''0123456789'') (take 4 s @ take 2 (drop 5 s) @ drop 8 s)
      then
        (let d = \<lparr>dt_year = digits_value (take 4 s), dt_month = digits_value (take 2 (drop 5 s)),
                   dt_day = digits_value (drop 8 s), dt_hour = 0, dt_minute = 0, dt_second = 0,
                   dt_microsecond = 0\<rparr>
         in if valid_date d then Some d else None)
      else None)"

text \<open>Two expenses, of 3 January 2024 and of 30 December 2024, and a record without type.\<close>

definition example_txns :: "txn list" where
  "example_txns =
     [\<lparr>t_amount = Some 10, t_type = Some ''expense'', t_category = None,
        t_date = Some ''2024-01-03''\<rparr>,
      \<lparr>t_amount = Some 5, t_type = Some ''expense'', t_category = None,
        t_date = Some ''2024-12-30''\<rparr>]"

definition example_untyped :: txn where
  "example_untyped =
     \<lparr>t_amount = Some 7, t_type = None, t_category = None, t_date = Some ''2024-01-20''\<rparr>"

subsection \<open>Configuration (\<^verbatim>\<open>app/core/config.py\<close>)\<close>

record settings =
  secret_key :: string
  algorithm :: string
  access_token_expire_minutes :: int

text \<open>The values of \<^verbatim>\<open>Settings\<close> when the environment overrides none.\<close>

definition default_settings :: settings where
  "default_settings =
     \<lparr>secret_key = ''your-secret-key-change-in-production'', algorithm = ''HS256'',
      access_token_expire_minutes = 30\<rparr>"

subsection \<open>Token Codec (\<^verbatim>\<open>create_access_token\<close>, \<^verbatim>\<open>verify_token\<close>)\<close>

text \<open>
  Instants and durations are whole seconds, as the token carries them. The claims of a
  token are the subject, which may be absent, and the expiry.
\<close>

record payload =
  p_sub :: "string option"
  p_exp :: int

text \<open>
  Modelled from the spec: \<^verbatim>\<open>jwt.encode\<close> and \<^verbatim>\<open>jwt.decode\<close> belong to the
  library \<^verbatim>\<open>jose\<close>, which is not part of the sources. The spec describes a token as
  an opaque signed string encoding subject and expiry, signed with a shared secret and a
  named algorithm, and a validation that accepts only if the signature is valid, the
  algorithm matches and the current time is before the expiry. A token string is either
  not a token at all or a payload signed under some key with some algorithm; a signature
  verifies exactly under the key that made it.
\<close>

datatype token = Malformed string | Signed (tok_alg: string) (tok_key: string) (tok_payload: payload)

datatype jwt_error = JWTError | ExpiredSignatureError

text \<open>
  Modelled from the spec: \<^verbatim>\<open>jwt.encode\<close> (library \<^verbatim>\<open>jose\<close>, not among the
  sources) embeds the claims into a token signed with the secret and the named algorithm.
\<close>

definition jwt_encode :: "payload \<Rightarrow> string \<Rightarrow> string \<Rightarrow> token" where
  "jwt_encode claims key alg = Signed alg key claims"

text \<open>
  Modelled from the spec: \<^verbatim>\<open>jwt.decode\<close> (library \<^verbatim>\<open>jose\<close>, not among the
  sources) returns the claims only if the algorithm is one of those asked for, the
  signature verifies under the secret and the current time is before the expiry; every
  other token is an error of class \<^verbatim>\<open>JWTError\<close>.
\<close>

definition jwt_decode :: "int \<Rightarrow> token \<Rightarrow> string \<Rightarrow> string list \<Rightarrow> jwt_error + payload" where
  "jwt_decode now tok key algorithms =
     (case tok of
        Malformed _ \<Rightarrow> Inl JWTError
      | Signed alg k claims \<Rightarrow>
          if alg \<in> set algorithms then
            if k = key then
              if now < p_exp claims then Inr claims else Inl ExpiredSignatureError
            else Inl JWTError
          else Inl JWTError)"

text \<open>
  \<^verbatim>\<open>create_access_token(data, expires_delta)\<close> at the instant \<open>now\<close>
  (\<^verbatim>\<open>datetime.utcnow()\<close>). Of the dictionary \<^verbatim>\<open>data\<close> the entry \<^verbatim>\<open>sub\<close> is
  kept. The test \<^verbatim>\<open>if expires_delta:\<close> is one of truth value: \<^verbatim>\<open>None\<close> is false,
  and so is the \<^verbatim>\<open>timedelta\<close> of length zero.
\<close>

definition create_access_token :: "settings \<Rightarrow> int \<Rightarrow> string option \<Rightarrow> int option \<Rightarrow> token" where
  "create_access_token cfg now data expires_delta =
     (let expire =
        (case expires_delta of
           None \<Rightarrow> now + access_token_expire_minutes cfg * 60
         | Some delta \<Rightarrow>
             if delta = 0 then now + access_token_expire_minutes cfg * 60 else now + delta)
      in jwt_encode \<lparr>p_sub = data, p_exp = expire\<rparr> (secret_key cfg) (algorithm cfg))"

datatype token_data = TokenData (username: "string option")

definition verify_token :: "settings \<Rightarrow> int \<Rightarrow> token \<Rightarrow> token_data option" where
  "verify_token cfg now tok =
     (case jwt_decode now tok (secret_key cfg) [algorithm cfg] of
        Inl e \<Rightarrow> None
      | Inr claims \<Rightarrow>
          (case p_sub claims of
             None \<Rightarrow> None
           | Some name \<Rightarrow> Some (TokenData (Some name))))"

subsection \<open>Principal Resolver (\<^verbatim>\<open>get_current_user\<close>, \<^verbatim>\<open>get_current_active_user\<close>)\<close>

text \<open>
  A row of the table of users; \<^verbatim>\<open>is_active\<close> is a nullable column. The store is
  the list of rows, and \<^verbatim>\<open>.filter(User.username == name).first()\<close> finds the first
  row of that name.
\<close>

record user =
  u_id :: nat
  u_username :: string
  u_is_active :: "bool option"

definition credentials_exception :: http_exception where
  "credentials_exception = HTTPException 401 ''Could not validate credentials''"

text \<open>The body of the \<^verbatim>\<open>try\<close> block of \<^verbatim>\<open>get_current_user\<close>.\<close>

definition get_current_user_body :: "settings \<Rightarrow> int \<Rightarrow> user list \<Rightarrow> token \<Rightarrow> exn + user" where
  "get_current_user_body cfg now db tok =
     (case verify_token cfg now tok of
        None \<Rightarrow> Inl (HTTP credentials_exception)
      | Some token_data \<Rightarrow>
          (case find (\<lambda>u. Some (u_username u) = username token_data) db of
             None \<Rightarrow> Inl (HTTP credentials_exception)
           | Some u \<Rightarrow>
               if u_is_active u = Some False
               then Inl (HTTP (HTTPException 400 ''Inactive user''))
               else Inr u))"

text \<open>
  The block is closed by \<^verbatim>\<open>except Exception\<close>, which raises
  \<^verbatim>\<open>credentials_exception\<close> for whatever the body raised.
\<close>

definition get_current_user :: "settings \<Rightarrow> int \<Rightarrow> user list \<Rightarrow> token \<Rightarrow> http_exception + user" where
  "get_current_user cfg now db tok =
     (case get_current_user_body cfg now db tok of
        Inl e \<Rightarrow> Inl credentials_exception
      | Inr u \<Rightarrow> Inr u)"

definition get_current_active_user :: "user \<Rightarrow> http_exception + user" where
  "get_current_active_user current_user =
     (if u_is_active current_user = Some False
      then Inl (HTTPException 400 ''Inactive user'')
      else Inr current_user)"

text \<open>
  The gate of the protected routes: \<^verbatim>\<open>Depends(get_current_active_user)\<close>, which
  itself depends on \<^verbatim>\<open>get_current_user\<close>.
\<close>

definition resolve :: "settings \<Rightarrow> int \<Rightarrow> user list \<Rightarrow> token \<Rightarrow> http_exception + user" where
  "resolve cfg now db tok =
     (case get_current_user cfg now db tok of
        Inl e \<Rightarrow> Inl e
      | Inr u \<Rightarrow> get_current_active_user u)"

text \<open>A store with an active and an inactive principal.\<close>

definition example_users :: "user list" where
  "example_users =
     [\<lparr>u_id = 1, u_username = ''alice'', u_is_active = Some True\<rparr>,
      \<lparr>u_id = 2, u_username = ''bob'', u_is_active = Some False\<rparr>]"

subsection \<open>Currency conversion (\<^verbatim>\<open>convert_currency\<close>)\<close>

text \<open>
  What the request to the rate service comes back with: a failure of the transport, or
  a response with its status code and, if the body is JSON, the entries \<^verbatim>\<open>rates\<close>
  and \<^verbatim>\<open>date\<close> of it.
\<close>

record rate_data =
  rd_rates :: "(string \<times> rat) list option"
  rd_date :: "string option"

datatype upstream = TransportError | Response nat "rate_data option"

record conversion =
  cv_original_amount :: rat
  cv_original_currency :: string
  cv_converted_amount :: rat
  cv_target_currency :: string
  cv_conversion_rate :: rat
  cv_last_updated :: "string option"

text \<open>\<^verbatim>\<open>str.upper()\<close> on ASCII letters.\<close>

definition upper :: "string \<Rightarrow> string" where
  "upper s =
     map (\<lambda>c. let n = (of_char c :: nat) in if 97 \<le> n \<and> n \<le> 122 then char_of (n - 32) else c) s"

text \<open>The body of the \<^verbatim>\<open>try\<close> block of \<^verbatim>\<open>convert_currency\<close>.\<close>

definition convert_currency_body :: "upstream \<Rightarrow> rat \<Rightarrow> string \<Rightarrow> string \<Rightarrow> exn + conversion" where
  "convert_currency_body response amount from_currency to_currency =
     (case response of
        TransportError \<Rightarrow> Inl (Other ''httpx.TransportError'')
      | Response code body \<Rightarrow>
          if code = 200 then
            (case body of
               None \<Rightarrow> Inl (Other ''JSONDecodeError'')
             | Some data \<Rightarrow>
                 (let rates = (case rd_rates data of None \<Rightarrow> [] | Some r \<Rightarrow> r)
                  in case map_of rates (upper to_currency) of
                       None \<Rightarrow>
                         Inl (HTTP (HTTPException 400
                                (''Currency '' @ to_currency @ '' not supported'')))
                     | Some conversion_rate \<Rightarrow>
                         Inr \<lparr>cv_original_amount = amount,
                              cv_original_currency = upper from_currency,
                              cv_converted_amount = round2 (amount * conversion_rate),
                              cv_target_currency = upper to_currency,
                              cv_conversion_rate = conversion_rate,
                              cv_last_updated = rd_date data\<rparr>))
          else Inl (HTTP (HTTPException 503 ''Currency conversion service unavailable'')))"

text \<open>
  The block is closed by \<^verbatim>\<open>except Exception\<close>, which raises status 500 for
  whatever the body raised.
\<close>

definition convert_currency :: "upstream \<Rightarrow> rat \<Rightarrow> string \<Rightarrow> string \<Rightarrow> http_exception + conversion" where
  "convert_currency response amount from_currency to_currency =
     (case convert_currency_body response amount from_currency to_currency of
        Inl e \<Rightarrow> Inl (HTTPException 500 ''Internal server error'')
      | Inr r \<Rightarrow> Inr r)"

text \<open>A table of rates that knows the euro.\<close>

definition example_rates :: rate_data where
  "example_rates = \<lparr>rd_rates = Some [(''EUR'', 9 / 10)], rd_date = Some ''2024-01-05''\<rparr>"

text \<open>A clock reading: Wednesday 2025-01-01, 10:30:15.\<close>

definition example_now :: datetime where
  "example_now = \<lparr>dt_year = 2025, dt_month = 1, dt_day = 1, dt_hour = 10, dt_minute = 30,
     dt_second = 15, dt_microsecond = 500\<rparr>"

section \<open>Properties\<close>

subsection \<open>Budget Progress Evaluator\<close>

lemma progress_percentage_guard: "budget_amount \<le> 0 \<Longrightarrow> progress_percentage s budget_amount = 0"
  by (simp add: progress_percentage_def)

lemma status_exceeded_iff:
  "budget_status (progress_percentage s b) = ''exceeded'' \<longleftrightarrow> 0 < b \<and> b \<le> s"
  by (auto simp: budget_status_def progress_percentage_def field_simps)

lemma status_warning_iff:
  "budget_status (progress_percentage s b) = ''warning'' \<longleftrightarrow> 0 < b \<and> b * 4 / 5 \<le> s \<and> s < b"
  by (auto simp: budget_status_def progress_percentage_def field_simps)

lemma status_good_iff:
  "budget_status (progress_percentage s b) = ''good'' \<longleftrightarrow> b \<le> 0 \<or> s < b * 4 / 5"
  by (auto simp: budget_status_def progress_percentage_def field_simps)


subsection \<open>Summarize\<close>







subsection \<open>Category Aggregator\<close>

lemma round_half_even_error: "\<bar>of_int (round_half_even x) - x\<bar> \<le> 1 / 2"
proof -
  define f where "f = \<lfloor>x\<rfloor>"
  have a: "of_int f \<le> x" and b: "x < of_int f + 1"
    unfolding f_def by linarith+
  show ?thesis
    unfolding round_half_even_def Let_def f_def [symmetric]
    using a b by (auto simp: abs_if)
qed

lemma round2_error: "\<bar>round2 x - x\<bar> \<le> 1 / 200"
proof -
  have "\<bar>of_int (round_half_even (x * 100)) - x * 100\<bar> \<le> 1 / 2"
    by (rule round_half_even_error)
  then have "\<bar>(of_int (round_half_even (x * 100)) - x * 100) / 100\<bar> \<le> (1 / 2) / 100"
    by (simp add: abs_if split: if_splits)
  then show ?thesis
    by (simp add: round2_def diff_divide_distrib)
qed

lemma mset_sort_reverse: "mset (sort_reverse k xs) = mset xs"
  by (simp add: sort_reverse_def)



lemma sum_percentages:
  "sum_list (map (\<lambda>g. percentage_of T (g_total_amount g)) rows) =
     (if T > 0 then sum_list (map g_total_amount rows) / T * 100 else 0)"
  by (induction rows) (simp_all add: percentage_of_def add_divide_distrib distrib_right)

lemma sum_round2_error:
  "\<bar>sum_list (map (\<lambda>x. round2 (f x)) xs) - sum_list (map f xs)\<bar> \<le> of_nat (length xs) / 200"
proof (induction xs)
  case Nil
  then show ?case by simp
next
  case (Cons a xs)
  have "\<bar>round2 (f a) - f a\<bar> \<le> 1 / 200" by (rule round2_error)
  with Cons show ?case by (simp add: add_divide_distrib abs_if split: if_splits)
qed

lemma sum_list_breakdown:
  "sum_list (map c_percentage (breakdown rows)) =
     sum_list (map (\<lambda>g. round2 (percentage_of (total_expenses rows) (g_total_amount g))) rows)"
proof -
  have "mset (breakdown rows) = mset (map (breakdown_row (total_expenses rows)) rows)"
    by (simp add: breakdown_def mset_sort_reverse)
  then have "mset (map c_percentage (breakdown rows)) =
        mset (map c_percentage (map (breakdown_row (total_expenses rows)) rows))"
    by (simp only: mset_map)
  then have "sum_list (map c_percentage (breakdown rows)) =
        sum_list (map c_percentage (map (breakdown_row (total_expenses rows)) rows))"
    by (metis sum_mset_sum_list)
  then show ?thesis
    by (simp add: comp_def breakdown_row_def Let_def)
qed

lemma percentage_sum_error:
  assumes "0 < total_expenses rows"
  shows "\<bar>sum_list (map c_percentage (breakdown rows)) - 100\<bar> \<le> of_nat (length rows) / 200"
proof -
  let ?T = "total_expenses rows"
  have "sum_list (map (\<lambda>g. percentage_of ?T (g_total_amount g)) rows) = 100"
    using assms by (simp add: sum_percentages) (simp add: total_expenses_def)
  with sum_round2_error [of "\<lambda>g. percentage_of ?T (g_total_amount g)" rows]
  show ?thesis by (simp add: sum_list_breakdown)
qed


lemma example_breakdown_order: "map c_category (breakdown example_rows) = [''Uncategorized'', ''Food'', ''Bills'', ''Travel'']"
  by code_simp
lemma example_breakdown_percentages: "map c_percentage (breakdown example_rows) = [4167/100, 25, 25, 833/100]"
  by code_simp
lemma example_total_expenses: "total_expenses example_rows = 120" by code_simp

text \<open>
  Claim C7. For a non-empty list of rows with non-negative totals and a non-zero grand
  total, the percentages of the breakdown add up to 100 within 0.01 per entry.
\<close>

theorem category_percentages_sum_to_100:
  assumes "rows \<noteq> []" and "total_expenses rows \<noteq> 0"
    and "\<forall>g\<in>set rows. 0 \<le> g_total_amount g"
  shows "\<bar>sum_list (map c_percentage (breakdown rows)) - 100\<bar> \<le> of_nat (length rows) / 100"
proof -
  have "0 \<le> total_expenses rows"
    unfolding total_expenses_def using assms(3) by (auto intro!: sum_list_nonneg)
  with assms(2) have "0 < total_expenses rows" by simp
  then have "\<bar>sum_list (map c_percentage (breakdown rows)) - 100\<bar> \<le> of_nat (length rows) / 200"
    by (rule percentage_sum_error)
  also have "(of_nat (length rows) :: rat) / 200 \<le> of_nat (length rows) / 100"
    by (simp add: field_simps)
  finally show ?thesis .
qed

theorem category_percentages_sum_to_100_witness:
  "example_rows \<noteq> [] \<and> total_expenses example_rows \<noteq> 0
   \<and> list_all (\<lambda>g. 0 \<le> g_total_amount g) example_rows
   \<and> \<bar>sum_list (map c_percentage (breakdown example_rows)) - 100\<bar>
        \<le> of_nat (length example_rows) / 100"
proof -
  have h1: "example_rows \<noteq> []" by (simp add: example_rows_def)
  have h2: "total_expenses example_rows \<noteq> 0" by (simp add: total_expenses_def example_rows_def)
  have h3: "\<forall>g\<in>set example_rows. 0 \<le> g_total_amount g" by (simp add: example_rows_def)
  have h3': "list_all (\<lambda>g. 0 \<le> g_total_amount g) example_rows"
    by (simp add: example_rows_def)
  show ?thesis using h1 h2 h3' category_percentages_sum_to_100 [OF h1 h2 h3] by blast
qed


subsection \<open>Calendar and Period Window Calculator\<close>

lemma div_succ_int:
  fixes z k :: int
  assumes "0 < k"
  shows "(z + 1) div k = z div k + (if (z + 1) mod k = 0 then 1 else 0)"
proof -
  define q where "q = z div k"
  define m where "m = z mod k"
  have z: "z = k * q + m" unfolding q_def m_def by simp
  have r: "0 \<le> m" "m < k" unfolding m_def using assms by simp_all
  show ?thesis
  proof (cases "m + 1 = k")
    case True
    have "k * (q + 1) = k * q + k" by (simp add: distrib_left)
    with z True have e: "z + 1 = k * (q + 1) + 0" by simp
    have "(z + 1) div k = q + 1"
      by (rule int_div_pos_eq [OF e]) (use assms in simp_all)
    moreover have "(z + 1) mod k = 0"
      by (rule int_mod_pos_eq [OF e]) (use assms in simp_all)
    ultimately show ?thesis by (simp add: q_def)
  next
    case False
    with r have lt: "m + 1 < k" by simp
    have e: "z + 1 = k * q + (m + 1)" using z by simp
    have p: "0 \<le> m + 1" using r by simp
    have "(z + 1) div k = q"
      using e p lt by (rule int_div_pos_eq)
    moreover have "(z + 1) mod k = m + 1"
      using e p lt by (rule int_mod_pos_eq)
    ultimately show ?thesis using r by (simp add: q_def)
  qed
qed


lemma days_before_year_unfolded_step:
  fixes y :: int
  shows "(y - 1) * 365 + (y - 1) div 4 - (y - 1) div 100 + (y - 1) div 400 =
    (y - 2) * 365 + (y - 2) div 4 - (y - 2) div 100 + (y - 2) div 400 +
    (if (y - 1) mod 4 = 0 \<and> (if (y - 1) mod 100 = 0 then (y - 1) mod 400 = 0 else True) then 366 else 365)"
proof -
  have a: "(y - 1) div 4 = (y - 2) div 4 + (if (y - 1) mod 4 = 0 then 1 else 0)"
    using div_succ_int [of 4 "y - 2"] by simp
  have b: "(y - 1) div 100 = (y - 2) div 100 + (if (y - 1) mod 100 = 0 then 1 else 0)"
    using div_succ_int [of 100 "y - 2"] by simp
  have c: "(y - 1) div 400 = (y - 2) div 400 + (if (y - 1) mod 400 = 0 then 1 else 0)"
    using div_succ_int [of 400 "y - 2"] by simp
  have d1: "(y - 1) mod 400 = 0 \<Longrightarrow> (y - 1) mod 100 = 0"
  proof -
    assume "(y - 1) mod 400 = 0"
    then have "400 dvd (y - 1)" by (simp add: mod_eq_0_iff_dvd)
    moreover have "(100::int) dvd 400" by simp
    ultimately have "100 dvd (y - 1)" by (rule dvd_trans [rotated])
    then show ?thesis by (simp add: mod_eq_0_iff_dvd)
  qed
  have d2: "(y - 1) mod 100 = 0 \<Longrightarrow> (y - 1) mod 4 = 0"
  proof -
    assume "(y - 1) mod 100 = 0"
    then have "100 dvd (y - 1)" by (simp add: mod_eq_0_iff_dvd)
    moreover have "(4::int) dvd 100" by simp
    ultimately have "4 dvd (y - 1)" by (rule dvd_trans [rotated])
    then show ?thesis by (simp add: mod_eq_0_iff_dvd)
  qed
  show ?thesis
    unfolding a b c using d1 d2 by (auto simp: algebra_simps)
qed

lemma days_before_year_step:
  "days_before_year y = days_before_year (y - 1) + (if is_leap (y - 1) then 366 else 365)"
proof -
  have e: "y - 1 - 1 = y - 2" by simp
  show ?thesis
    unfolding days_before_year_def is_leap_def Let_def e
    by (rule days_before_year_unfolded_step)
qed

lemma month_cases:
  assumes "1 \<le> m" "m \<le> (12::int)"
  shows "m = 1 \<or> m = 2 \<or> m = 3 \<or> m = 4 \<or> m = 5 \<or> m = 6
     \<or> m = 7 \<or> m = 8 \<or> m = 9 \<or> m = 10 \<or> m = 11 \<or> m = 12"
proof -
  have a: "m = 1 \<or> m = 2 \<or> m = 3 \<or> m = 4 \<or> 5 \<le> m" using assms(1) by arith
  have b: "5 \<le> m \<Longrightarrow> m = 5 \<or> m = 6 \<or> m = 7 \<or> m = 8 \<or> 9 \<le> m" by arith
  have c: "9 \<le> m \<Longrightarrow> m = 9 \<or> m = 10 \<or> m = 11 \<or> m = 12" using assms(2) by arith
  from a b c show ?thesis by blast
qed

lemma days_in_month_ge_28:
  assumes "1 \<le> m" "m \<le> 12"
  shows "28 \<le> days_in_month y m"
  using month_cases [OF assms]
  by (elim disjE) (simp_all add: days_in_month_def)

lemma days_before_month_step:
  assumes "2 \<le> m" "m \<le> 12"
  shows "days_before_month y m = days_before_month y (m - 1) + days_in_month y (m - 1)"
proof -
  from assms have "1 \<le> m" by simp
  from month_cases [OF this assms(2)] show ?thesis
    using assms(1)
    by (elim disjE) (simp_all add: days_before_month_def days_in_month_def)
qed

lemma days_before_month_12: "days_before_month y 12 + 31 = (if is_leap y then 366 else 365)"
  by (simp add: days_before_month_def)



lemma toordinal_prev_day:
  assumes v: "valid_date d" and o: "1 < toordinal d"
  shows "\<exists>d'. prev_day d = Some d' \<and> valid_date d' \<and> toordinal d' = toordinal d - 1"
proof -
  from v have y: "1 \<le> dt_year d" "dt_year d \<le> 9999" and m: "1 \<le> dt_month d" "dt_month d \<le> 12"
    and dd: "1 \<le> dt_day d" "dt_day d \<le> days_in_month (dt_year d) (dt_month d)"
    by (simp_all add: valid_date_def)
  consider (day) "1 < dt_day d" | (month) "dt_day d = 1" "1 < dt_month d"
    | (year) "dt_day d = 1" "dt_month d = 1" "1 < dt_year d"
    | (first) "dt_day d = 1" "dt_month d = 1" "dt_year d = 1"
    using y(1) m(1) dd(1) by linarith
  then show ?thesis
  proof cases
    case day
    then show ?thesis
      using y m dd by (simp add: prev_day_def valid_date_def toordinal_def ymd2ord_def)
  next
    case month
    have s: "days_before_month (dt_year d) (dt_month d) =
        days_before_month (dt_year d) (dt_month d - 1) + days_in_month (dt_year d) (dt_month d - 1)"
      using month m by (intro days_before_month_step) simp_all
    have g: "28 \<le> days_in_month (dt_year d) (dt_month d - 1)"
      using month m by (intro days_in_month_ge_28) simp_all
    show ?thesis
      using month y m g s by (simp add: prev_day_def valid_date_def toordinal_def ymd2ord_def)
  next
    case year
    have s: "days_before_year (dt_year d) =
        days_before_year (dt_year d - 1) + (if is_leap (dt_year d - 1) then 366 else 365)"
      by (rule days_before_year_step)
    have t: "days_before_month (dt_year d - 1) 12 + 31 = (if is_leap (dt_year d - 1) then 366 else 365)"
      by (rule days_before_month_12)
    have z: "days_before_month (dt_year d) 1 = 0" by (simp add: days_before_month_def)
    have e: "days_in_month (dt_year d - 1) 12 = 31" by (simp add: days_in_month_def)
    show ?thesis
      using year y s t z e by (simp add: prev_day_def valid_date_def toordinal_def ymd2ord_def)
  next
    case first
    then have "toordinal d = 1"
      by (simp add: toordinal_def ymd2ord_def days_before_year_def days_before_month_def)
    with o show ?thesis by simp
  qed
qed

lemma toordinal_sub_days:
  "valid_date d \<Longrightarrow> int k < toordinal d \<Longrightarrow>
     \<exists>d'. sub_days d k = Some d' \<and> valid_date d' \<and> toordinal d' = toordinal d - int k"
proof (induction k arbitrary: d)
  case 0
  then show ?case by simp
next
  case (Suc k)
  from Suc.prems have "1 < toordinal d" by simp
  with Suc.prems(1) obtain d1 where p: "prev_day d = Some d1" "valid_date d1"
      "toordinal d1 = toordinal d - 1"
    using toordinal_prev_day by blast
  from Suc.prems p have "int k < toordinal d1" by simp
  with p(2) obtain d' where "sub_days d1 k = Some d'" "valid_date d'"
      "toordinal d' = toordinal d1 - int k"
    using Suc.IH by blast
  with p show ?case by simp
qed

lemma days_before_year_nonneg:
  assumes "1 \<le> year"
  shows "0 \<le> days_before_year year"
proof -
  define y where "y = year - 1"
  have y0: "0 \<le> y" using assms by (simp add: y_def)
  have "y div 100 \<le> y div 4"
    using y0 by (intro zdiv_mono2) simp_all
  moreover have "0 \<le> y div 400" using y0 by simp
  moreover have "0 \<le> y * 365" using y0 by simp
  ultimately show ?thesis
    by (simp add: days_before_year_def Let_def y_def [symmetric])
qed

lemma days_before_month_nonneg:
  assumes "1 \<le> m" "m \<le> 12"
  shows "0 \<le> days_before_month y m"
  using month_cases [OF assms]
  by (elim disjE) (simp_all add: days_before_month_def)

lemma toordinal_pos:
  assumes v: "valid_date d"
  shows "1 \<le> toordinal d"
proof -
  have a: "0 \<le> days_before_year (dt_year d)"
    using v by (intro days_before_year_nonneg) (simp add: valid_date_def)
  have b: "0 \<le> days_before_month (dt_year d) (dt_month d)"
    using v by (intro days_before_month_nonneg) (simp_all add: valid_date_def)
  have c: "1 \<le> dt_day d" using v by (simp add: valid_date_def)
  from a b c show ?thesis by (simp add: toordinal_def ymd2ord_def)
qed

lemma weekday_range: "0 \<le> weekday d \<and> weekday d < 7"
  by (simp add: weekday_def)

lemma week_start:
  assumes v: "valid_date now"
  shows "\<exists>s. sub_days now (nat (weekday now)) = Some s \<and> valid_date s
    \<and> weekday s = 0 \<and> toordinal s = toordinal now - weekday now"
proof -
  define t where "t = toordinal now"
  have p: "1 \<le> t" unfolding t_def using v by (rule toordinal_pos)
  have wd: "weekday now = (t + 6) mod 7" by (simp add: weekday_def t_def)
  have w: "0 \<le> weekday now" "weekday now < 7" using weekday_range [of now] by simp_all
  have lt: "(t + 6) mod 7 < t" using p by presburger
  then have "int (nat (weekday now)) < toordinal now" using w wd t_def by simp
  with v obtain s where s: "sub_days now (nat (weekday now)) = Some s" "valid_date s"
      "toordinal s = toordinal now - int (nat (weekday now))"
    using toordinal_sub_days by blast
  then have o: "toordinal s = t - (t + 6) mod 7" using w wd t_def by simp
  have z: "(t - (t + 6) mod 7 + 6) mod 7 = 0" by presburger
  have "weekday s = 0" using o z by (simp add: weekday_def)
  with s o wd t_def show ?thesis by simp
qed

lemma example_week_start:
  "period_start ''week'' example_now =
     Some \<lparr>dt_year = 2024, dt_month = 12, dt_day = 30, dt_hour = 0, dt_minute = 0,
       dt_second = 0, dt_microsecond = 0\<rparr>"
  by code_simp

lemma example_weekday: "weekday example_now = 2"
  by code_simp

lemma period_start_returns:
  assumes "valid_date now"
  shows "\<exists>s. period_start period now = Some s"
proof (cases "period = ''week''")
  case True
  with week_start [OF assms] show ?thesis by (auto simp: period_start_def)
next
  case False
  then show ?thesis by (simp add: period_start_def)
qed

lemma get_category_breakdown_returns:
  assumes "valid_date now"
  shows "\<exists>r. get_category_breakdown period now rows = Inr r
    \<and> r_breakdown r = breakdown rows \<and> r_total_expenses r = total_expenses rows
    \<and> r_category_count r = length rows \<and> period_start period now = Some (r_start_date r)"
proof -
  from period_start_returns [OF assms] obtain s where "period_start period now = Some s" ..
  then show ?thesis
    by (simp add: get_category_breakdown_def breakdown_def sort_reverse_def)
qed

text \<open>
  Claim C9. For a clock reading \<open>now\<close> that is a date of the calendar, the start of
  the window is a function of the tag and of \<open>now\<close> alone: for day it is \<open>now\<close>
  with the time of day set to zero; for week the computation returns a value, which is
  a Monday at midnight, not after the day of \<open>now\<close> and less than seven days before
  it; for month it is the first of the month of \<open>now\<close> at midnight; for year it is
  the first of January of the year of \<open>now\<close> at midnight.
\<close>

theorem period_window_start:
  assumes "valid_date now"
  shows "period_start ''day'' now =
      Some (now\<lparr>dt_hour := 0, dt_minute := 0, dt_second := 0, dt_microsecond := 0\<rparr>)
    \<and> (\<exists>s. period_start ''week'' now = Some s \<and> valid_date s \<and> weekday s = 0
          \<and> toordinal s \<le> toordinal now \<and> toordinal now - toordinal s < 7
          \<and> dt_hour s = 0 \<and> dt_minute s = 0 \<and> dt_second s = 0 \<and> dt_microsecond s = 0)
    \<and> period_start ''month'' now =
      Some (now\<lparr>dt_day := 1, dt_hour := 0, dt_minute := 0, dt_second := 0, dt_microsecond := 0\<rparr>)
    \<and> period_start ''year'' now =
      Some (now\<lparr>dt_month := 1, dt_day := 1, dt_hour := 0, dt_minute := 0, dt_second := 0,
        dt_microsecond := 0\<rparr>)"
proof (intro conjI)
  show "period_start ''day'' now =
      Some (now\<lparr>dt_hour := 0, dt_minute := 0, dt_second := 0, dt_microsecond := 0\<rparr>)"
    by (simp add: period_start_def midnight_def)
  show "period_start ''month'' now =
      Some (now\<lparr>dt_day := 1, dt_hour := 0, dt_minute := 0, dt_second := 0, dt_microsecond := 0\<rparr>)"
    by (simp add: period_start_def midnight_def)
  show "period_start ''year'' now =
      Some (now\<lparr>dt_month := 1, dt_day := 1, dt_hour := 0, dt_minute := 0, dt_second := 0,
        dt_microsecond := 0\<rparr>)"
    by (simp add: period_start_def midnight_def)
  from week_start [OF assms] obtain s0 where s0: "sub_days now (nat (weekday now)) = Some s0"
      "valid_date s0" "weekday s0 = 0" "toordinal s0 = toordinal now - weekday now"
    by blast
  have w: "0 \<le> weekday now" "weekday now < 7" using weekday_range [of now] by simp_all
  have p: "period_start ''week'' now = Some (midnight s0)"
    using s0(1) by (simp add: period_start_def)
  have v: "valid_date (midnight s0)" using s0(2) by (simp add: valid_date_def midnight_def)
  have o: "toordinal (midnight s0) = toordinal s0" by (simp add: toordinal_def midnight_def)
  have wd: "weekday (midnight s0) = 0" using s0(3) o by (simp add: weekday_def)
  have t: "dt_hour (midnight s0) = 0 \<and> dt_minute (midnight s0) = 0
      \<and> dt_second (midnight s0) = 0 \<and> dt_microsecond (midnight s0) = 0"
    by (simp add: midnight_def)
  have le: "toordinal (midnight s0) \<le> toordinal now" "toordinal now - toordinal (midnight s0) < 7"
    using o s0(4) w by simp_all
  show "\<exists>s. period_start ''week'' now = Some s \<and> valid_date s \<and> weekday s = 0
          \<and> toordinal s \<le> toordinal now \<and> toordinal now - toordinal s < 7
          \<and> dt_hour s = 0 \<and> dt_minute s = 0 \<and> dt_second s = 0 \<and> dt_microsecond s = 0"
    using p v wd le t by blast
qed

theorem period_window_start_witness:
  "valid_date example_now
   \<and> period_start ''day'' example_now =
      Some (example_now\<lparr>dt_hour := 0, dt_minute := 0, dt_second := 0, dt_microsecond := 0\<rparr>)
    \<and> (\<exists>s. period_start ''week'' example_now = Some s \<and> valid_date s \<and> weekday s = 0
          \<and> toordinal s \<le> toordinal example_now \<and> toordinal example_now - toordinal s < 7
          \<and> dt_hour s = 0 \<and> dt_minute s = 0 \<and> dt_second s = 0 \<and> dt_microsecond s = 0)
    \<and> period_start ''month'' example_now =
      Some (example_now\<lparr>dt_day := 1, dt_hour := 0, dt_minute := 0, dt_second := 0, dt_microsecond := 0\<rparr>)
    \<and> period_start ''year'' example_now =
      Some (example_now\<lparr>dt_month := 1, dt_day := 1, dt_hour := 0, dt_minute := 0, dt_second := 0,
        dt_microsecond := 0\<rparr>)"
proof -
  have h: "valid_date example_now"
    by (simp add: valid_date_def example_now_def days_in_month_def)
  show ?thesis using h period_window_start [OF h] by blast
qed

subsection \<open>Aggregate\<close>

lemma map_of_dict_set: "map_of (dict_set k v xs) k = Some v"
  by (induction xs) auto

lemma map_of_dict_set_other: "k' \<noteq> k \<Longrightarrow> map_of (dict_set k v xs) k' = map_of xs k'"
  by (induction xs) auto

lemma bucket_expense_update:
  "b\<lparr>a_expenses := e, a_count := c\<rparr> = \<lparr>a_income = a_income b, a_expenses = e, a_count = c\<rparr>"
  by (cases b) simp

lemma aggregated_of_snoc:
  "aggregated_of fromisoformat period (ts @ [t]) =
     aggregate_step fromisoformat period (aggregated_of fromisoformat period ts) t"
  by (simp add: aggregated_of_def)

lemma aggregate_step_no_date:
  "t_date t = None \<or> t_date t = Some [] \<Longrightarrow> aggregate_step fromisoformat period agg t = agg"
  by (auto simp: aggregate_step_def)

lemma aggregate_step_unparseable:
  "t_date t = Some s \<Longrightarrow> fromisoformat (replace_Z s) = None \<Longrightarrow>
     aggregate_step fromisoformat period agg t = agg"
  by (simp add: aggregate_step_def)

lemma period_key_day: "period_key ''day'' d = strftime_Ymd d"
  by (simp add: period_key_def)

lemma period_key_month: "period_key ''month'' d = strftime_Ym d"
  by (simp add: period_key_def)

lemma period_key_year: "period_key ''year'' d = str_int (dt_year d)"
  by (simp add: period_key_def)

lemma period_key_week:
  "period_key ''week'' d = str_int (dt_year d) @ ''-W'' @ str_int (fst (snd (isocalendar d)))"
  by (simp add: period_key_def)

lemma example_month_buckets:
  "transform_aggregate fromisoformat_date
     \<lparr>d_transactions = Some (example_txns @ [example_untyped, example_untyped\<lparr>t_date := None\<rparr>]),
      d_period = None\<rparr> =
   Inr ([(''2024-01'', \<lparr>a_income = 0, a_expenses = 17, a_count = 2\<rparr>),
         (''2024-12'', \<lparr>a_income = 0, a_expenses = 5, a_count = 1\<rparr>)], ''month'')"
  by code_simp

text \<open>
  Claim C4 at a failing input. With period week, the expense of 3 January 2024 (ISO
  week 1 of ISO year 2024) and the expense of 30 December 2024 (ISO week 1 of ISO year
  2025) get the same key, made of the calendar year and the ISO week, and share one
  bucket.
\<close>

theorem week_key_uses_calendar_year:
  "map_option isocalendar (fromisoformat_date ''2024-01-03'') = Some (2024, 1, 3)
   \<and> map_option isocalendar (fromisoformat_date ''2024-12-30'') = Some (2025, 1, 1)
   \<and> map_option (period_key ''week'') (fromisoformat_date ''2024-12-30'') = Some ''2024-W1''
   \<and> transform_aggregate fromisoformat_date
       \<lparr>d_transactions = Some example_txns, d_period = Some ''week''\<rparr> =
     Inr ([(''2024-W1'', \<lparr>a_income = 0, a_expenses = 15, a_count = 2\<rparr>)], ''week'')"
  by code_simp

text \<open>
  Claim C10. A record whose date parses and which has no \<open>type\<close> is counted in its
  bucket as an expense: the turn of the loop on it stores the bucket with the amount
  added to \<open>expenses\<close>, the income as it was and the count one higher, and after a run
  that ends with the record the bucket reads so. In summarize the same record adds to
  neither total.
\<close>

theorem aggregate_untyped_is_expense:
  assumes "t_type t = None" and "t_date t = Some s" and "s \<noteq> []"
    and "fromisoformat (replace_Z s) = Some d"
  shows "aggregate_step fromisoformat period agg t =
      dict_set (period_key period d)
        \<lparr>a_income = a_income (bucket_of agg (period_key period d)),
         a_expenses = a_expenses (bucket_of agg (period_key period d)) + get_amount t,
         a_count = a_count (bucket_of agg (period_key period d)) + 1\<rparr> agg
    \<and> map_of (aggregated_of fromisoformat period (ts @ [t])) (period_key period d) =
      Some \<lparr>a_income =
              a_income (bucket_of (aggregated_of fromisoformat period ts) (period_key period d)),
            a_expenses =
              a_expenses (bucket_of (aggregated_of fromisoformat period ts) (period_key period d))
                + get_amount t,
            a_count =
              a_count (bucket_of (aggregated_of fromisoformat period ts) (period_key period d))
                + 1\<rparr>
    \<and> total_of_type ''income'' (ts @ [t]) = total_of_type ''income'' ts
    \<and> total_of_type ''expense'' (ts @ [t]) = total_of_type ''expense'' ts"
proof -
  have step: "aggregate_step fromisoformat period a t =
      dict_set (period_key period d)
        \<lparr>a_income = a_income (bucket_of a (period_key period d)),
         a_expenses = a_expenses (bucket_of a (period_key period d)) + get_amount t,
         a_count = a_count (bucket_of a (period_key period d)) + 1\<rparr> a" for a
    using assms by (simp add: aggregate_step_def Let_def bucket_expense_update)
  have run: "map_of (aggregated_of fromisoformat period (ts @ [t])) (period_key period d) =
      Some \<lparr>a_income =
              a_income (bucket_of (aggregated_of fromisoformat period ts) (period_key period d)),
            a_expenses =
              a_expenses (bucket_of (aggregated_of fromisoformat period ts) (period_key period d))
                + get_amount t,
            a_count =
              a_count (bucket_of (aggregated_of fromisoformat period ts) (period_key period d))
                + 1\<rparr>"
    unfolding aggregated_of_snoc step by (rule map_of_dict_set)
  have inc: "total_of_type ''income'' (ts @ [t]) = total_of_type ''income'' ts"
    using assms(1) by (simp add: total_of_type_def)
  have exp: "total_of_type ''expense'' (ts @ [t]) = total_of_type ''expense'' ts"
    using assms(1) by (simp add: total_of_type_def)
  from step [of agg] run inc exp show ?thesis by blast
qed

theorem aggregate_untyped_is_expense_witness:
  "t_type example_untyped = None \<and> t_date example_untyped = Some ''2024-01-20''
   \<and> ''2024-01-20'' \<noteq> []
   \<and> fromisoformat_date (replace_Z ''2024-01-20'') =
       Some \<lparr>dt_year = 2024, dt_month = 1, dt_day = 20, dt_hour = 0, dt_minute = 0,
              dt_second = 0, dt_microsecond = 0\<rparr>
   \<and> map_of (aggregated_of fromisoformat_date ''month'' (example_txns @ [example_untyped]))
        ''2024-01'' =
       Some \<lparr>a_income = 0, a_expenses = 17, a_count = 2\<rparr>
   \<and> total_of_type ''income'' (example_txns @ [example_untyped]) =
       total_of_type ''income'' example_txns
   \<and> total_of_type ''expense'' (example_txns @ [example_untyped]) =
       total_of_type ''expense'' example_txns"
proof -
  let ?d = "\<lparr>dt_year = 2024, dt_month = 1, dt_day = 20, dt_hour = 0, dt_minute = 0,
              dt_second = 0, dt_microsecond = 0\<rparr>"
  have h1: "t_type example_untyped = None" by (simp add: example_untyped_def)
  have h2: "t_date example_untyped = Some ''2024-01-20''" by (simp add: example_untyped_def)
  have h3: "''2024-01-20'' \<noteq> []" by simp
  have h4: "fromisoformat_date (replace_Z ''2024-01-20'') = Some ?d" by code_simp
  have k: "period_key ''month'' ?d = ''2024-01''" by code_simp
  have b: "bucket_of (aggregated_of fromisoformat_date ''month'' example_txns) ''2024-01'' =
      \<lparr>a_income = 0, a_expenses = 10, a_count = 1\<rparr>" by code_simp
  have g: "get_amount example_untyped = 7" by code_simp
  note th = aggregate_untyped_is_expense [where fromisoformat = fromisoformat_date
      and t = example_untyped and s = "''2024-01-20''" and d = ?d and period = "''month''"
      and agg = "[]" and ts = example_txns, OF h1 h2 h3 h4]
  from th have "map_of (aggregated_of fromisoformat_date ''month'' (example_txns @ [example_untyped]))
        ''2024-01'' = Some \<lparr>a_income = 0, a_expenses = 17, a_count = 2\<rparr>"
    unfolding k b g by simp
  with th h1 h2 h3 h4 show ?thesis by blast
qed

subsection \<open>Token Codec\<close>

lemma verify_token_accepts_iff:
  "verify_token cfg now tok = Some td \<longleftrightarrow>
     (\<exists>claims name. tok = Signed (algorithm cfg) (secret_key cfg) claims
        \<and> now < p_exp claims \<and> p_sub claims = Some name \<and> td = TokenData (Some name))"
  by (cases tok) (auto simp: verify_token_def jwt_decode_def split: option.splits)

lemma create_access_token_expiry:
  "tok_payload (create_access_token cfg now data expires_delta) =
     \<lparr>p_sub = data,
      p_exp = (if expires_delta = None \<or> expires_delta = Some 0
               then now + access_token_expire_minutes cfg * 60
               else now + the expires_delta)\<rparr>"
  by (auto simp: create_access_token_def jwt_encode_def split: option.splits)

lemma zero_ttl_token_lives_for_the_default:
  assumes "t < now + access_token_expire_minutes cfg * 60"
  shows "verify_token cfg t (create_access_token cfg now (Some name) (Some 0)) =
           Some (TokenData (Some name))"
  using assms by (simp add: verify_token_def jwt_decode_def create_access_token_def jwt_encode_def)

text \<open>
  Claim C2 at a failing input. A token issued for alice at instant 1000 with a time to
  live of zero carries the expiry 1000 + 30 * 60, and validating it at that same instant,
  or 1799 seconds later, returns alice.
\<close>

theorem zero_ttl_token_is_valid:
  "create_access_token default_settings 1000 (Some ''alice'') (Some 0) =
     Signed ''HS256'' ''your-secret-key-change-in-production''
       \<lparr>p_sub = Some ''alice'', p_exp = 2800\<rparr>
   \<and> verify_token default_settings 1000
       (create_access_token default_settings 1000 (Some ''alice'') (Some 0)) =
     Some (TokenData (Some ''alice''))
   \<and> verify_token default_settings 2799
       (create_access_token default_settings 1000 (Some ''alice'') (Some 0)) =
     Some (TokenData (Some ''alice''))"
  by (simp add: verify_token_def jwt_decode_def create_access_token_def jwt_encode_def
      default_settings_def)

subsection \<open>Principal Resolver\<close>

lemma get_current_user_only_401:
  "get_current_user cfg now db tok = Inl e \<Longrightarrow> e = credentials_exception"
  by (auto simp: get_current_user_def split: sum.splits)

lemma resolve_only_401:
  "resolve cfg now db tok = Inl e \<Longrightarrow> e = credentials_exception"
  by (auto simp: resolve_def get_current_user_def get_current_user_body_def
      get_current_active_user_def split: sum.splits option.splits if_splits)

text \<open>
  Claim C1 at a failing input. Bob is stored and inactive, and his token is valid at
  instant 1000. The body of \<open>get_current_user\<close> raises status 400, Inactive user; the
  function, and the gate built on it, raise status 401, the same exception as for a
  string that is no token and for a subject that is not stored.
\<close>

theorem inactive_principal_gets_401:
  "verify_token default_settings 1000
      (create_access_token default_settings 1000 (Some ''bob'') (Some 1800)) =
     Some (TokenData (Some ''bob''))
   \<and> get_current_user_body default_settings 1000 example_users
      (create_access_token default_settings 1000 (Some ''bob'') (Some 1800)) =
     Inl (HTTP (HTTPException 400 ''Inactive user''))
   \<and> get_current_user default_settings 1000 example_users
      (create_access_token default_settings 1000 (Some ''bob'') (Some 1800)) =
     Inl (HTTPException 401 ''Could not validate credentials'')
   \<and> resolve default_settings 1000 example_users
      (create_access_token default_settings 1000 (Some ''bob'') (Some 1800)) =
     Inl (HTTPException 401 ''Could not validate credentials'')
   \<and> resolve default_settings 1000 example_users (Malformed ''garbage'') =
     Inl (HTTPException 401 ''Could not validate credentials'')
   \<and> resolve default_settings 1000 example_users
      (create_access_token default_settings 1000 (Some ''carol'') (Some 1800)) =
     Inl (HTTPException 401 ''Could not validate credentials'')"
  by (simp add: resolve_def get_current_user_def get_current_user_body_def verify_token_def
      jwt_decode_def create_access_token_def jwt_encode_def default_settings_def
      example_users_def credentials_exception_def get_current_active_user_def)

subsection \<open>Currency conversion\<close>

lemma convert_currency_only_500:
  "convert_currency response amount from_currency to_currency = Inl e \<Longrightarrow>
     e = HTTPException 500 ''Internal server error''"
  by (auto simp: convert_currency_def split: sum.splits)

text \<open>
  Claim C3 at two failing inputs. With the rate service answering status 503 the body of
  \<open>convert_currency\<close> raises status 503, and with a table of rates that lacks the
  target code it raises status 400; the function raises status 500, Internal server
  error, in both cases.
\<close>

theorem conversion_errors_collapse_to_500:
  "convert_currency_body (Response 503 None) 100 ''usd'' ''eur'' =
     Inl (HTTP (HTTPException 503 ''Currency conversion service unavailable''))
   \<and> convert_currency (Response 503 None) 100 ''usd'' ''eur'' =
     Inl (HTTPException 500 ''Internal server error'')
   \<and> convert_currency_body (Response 200 (Some example_rates)) 100 ''usd'' ''xyz'' =
     Inl (HTTP (HTTPException 400 ''Currency xyz not supported''))
   \<and> convert_currency (Response 200 (Some example_rates)) 100 ''usd'' ''xyz'' =
     Inl (HTTPException 500 ''Internal server error'')"
  by code_simp

lemma example_conversion:
  "convert_currency (Response 200 (Some example_rates)) 100 ''usd'' ''eur'' =
     Inr \<lparr>cv_original_amount = 100, cv_original_currency = ''USD'', cv_converted_amount = 90,
          cv_target_currency = ''EUR'', cv_conversion_rate = 9 / 10,
          cv_last_updated = Some ''2024-01-05''\<rparr>"
  by code_simp

end
